theory Spec2Isabelle
  imports Complex_Main "HOL-Library.Sublist" "HOL-Library.Char_ord" "HOL-Library.List_Lexorder"
begin

section \<open>Nuclear waste tracker: data model\<close>

text \<open>
  A shallow embedding of \<^verbatim>\<open>src/waste_tracker.py\<close> (class \<^verbatim>\<open>NuclearWasteTracker\<close>).

  Conventions of the embedding:
  \<^item> Python floats (\<^verbatim>\<open>activity_bq\<close>, half-lives, limits) are idealised as \<^typ>\<open>real\<close>;
    rounding, infinities and NaN of IEEE doubles are outside the model.
  \<^item> A \<^verbatim>\<open>datetime\<close> is the number of microseconds since \<^verbatim>\<open>datetime.min\<close>
    (0001-01-01T00:00:00), an \<^typ>\<open>int\<close>; a \<^verbatim>\<open>timedelta\<close> is a number of microseconds.
    The database stores \<^verbatim>\<open>isoformat()\<close> strings, whose lexicographic order is the
    chronological one; the model stores the instant itself.
  \<^item> The system clock \<^verbatim>\<open>datetime.now()\<close> and the random \<^verbatim>\<open>uuid4\<close> prefix are
    parameters of the operations that read them.
  \<^item> The SQLite file is an explicit state: the rows of the two tables in insertion order.
  \<^item> The \<^verbatim>\<open>isotopes\<close> column holds \<^verbatim>\<open>json.dumps\<close> of the list; the model stores the
    list (\<^verbatim>\<open>json.loads\<close> of \<^verbatim>\<open>json.dumps\<close> of a list of strings is that list).
\<close>

type_synonym datetime = int
type_synonym timedelta = int

datatype error = OverflowError | IntegrityError

record WasteContainer =
  id_c :: string
  label :: string
  waste_type :: string
  isotopes :: "string list"
  activity_bq :: real
  volume_l :: real
  mass_kg :: real
  location :: string
  storage_class :: string
  created_at :: datetime
  decay_date :: datetime
  status :: string

record TransferRecord =
  container_id :: string
  from_location :: string
  to_location :: string
  transferred_by :: string
  ts :: datetime
  manifested :: bool

text \<open>
  The database: table \<^verbatim>\<open>containers\<close> (primary key \<^verbatim>\<open>id\<close>), table \<^verbatim>\<open>transfers\<close> whose rows
  carry their \<^verbatim>\<open>INTEGER PRIMARY KEY AUTOINCREMENT\<close> id, and the counter SQLite keeps for
  that key (the largest id handed out so far).
\<close>

record db =
  containers :: "WasteContainer list"
  transfers :: "(int \<times> TransferRecord) list"
  transfer_seq :: int

definition HALF_LIVES :: "string \<rightharpoonup> real" where
  "HALF_LIVES =
     [''Cs-137'' \<mapsto> 30.17,
      ''Co-60'' \<mapsto> 5.27,
      ''Sr-90'' \<mapsto> 28.8,
      ''H-3'' \<mapsto> 12.32,
      ''C-14'' \<mapsto> 5730,
      ''Pu-239'' \<mapsto> 24100]"

definition STORAGE_LIMITS :: "string \<rightharpoonup> real" where
  "STORAGE_LIMITS =
     [''low_level'' \<mapsto> 1000000,
      ''intermediate'' \<mapsto> 1000000000,
      ''high_level'' \<mapsto> 1000000000000,
      ''transuranic'' \<mapsto> 1000000,
      ''exempt'' \<mapsto> 1000]"

text \<open>\<^verbatim>\<open>d.get(k, default)\<close> of a Python dict.\<close>

definition dict_get :: "('k \<rightharpoonup> 'v) \<Rightarrow> 'k \<Rightarrow> 'v \<Rightarrow> 'v" where
  "dict_get d k dflt = (case d k of None \<Rightarrow> dflt | Some v \<Rightarrow> v)"

text \<open>\<^verbatim>\<open>max(...)\<close> over a non-empty sequence, left to right; the source only calls it there.\<close>

fun max_seq :: "real list \<Rightarrow> real" where
  "max_seq [] = 0"
| "max_seq (x # xs) = fold max xs x"

section \<open>Dates\<close>

text \<open>
  \<^verbatim>\<open>datetime.max\<close> is 9999-12-31T23:59:59.999999, that is 3652059 days minus one
  microsecond after \<^verbatim>\<open>datetime.min\<close>.
\<close>

definition US_PER_DAY :: int where
  "US_PER_DAY = 86400000000"

definition DATETIME_MAX :: datetime where
  "DATETIME_MAX = 3652059 * 86400000000 - 1"

text \<open>Rounding to the nearest integer, ties to even, as \<^verbatim>\<open>timedelta\<close> rounds microseconds.\<close>

definition py_round :: "real \<Rightarrow> int" where
  "py_round x =
     (let f = \<lfloor>x\<rfloor>; d = x - of_int f
      in if d < 1/2 then f else if 1/2 < d then f + 1 else if even f then f else f + 1)"

text \<open>
  \<^verbatim>\<open>timedelta(days=x)\<close>: the duration in microseconds, rounded; \<^verbatim>\<open>OverflowError\<close> when the
  normalised day count leaves \<^verbatim>\<open>[-999999999, 999999999]\<close>.
\<close>

definition timedelta_days :: "real \<Rightarrow> error + timedelta" where
  "timedelta_days x =
     (let us = py_round (x * of_int US_PER_DAY); d = us div US_PER_DAY
      in if d < - 999999999 \<or> 999999999 < d then Inl OverflowError else Inr us)"

text \<open>\<^verbatim>\<open>dt + delta\<close>: \<^verbatim>\<open>OverflowError\<close> (date value out of range) outside years 1..9999.\<close>

definition datetime_add :: "datetime \<Rightarrow> timedelta \<Rightarrow> error + datetime" where
  "datetime_add dt delta =
     (let r = dt + delta in if r < 0 \<or> DATETIME_MAX < r then Inl OverflowError else Inr r)"

text \<open>\<^verbatim>\<open>(a - b).days\<close>: whole days of a difference, rounded towards minus infinity.\<close>

definition days_between :: "datetime \<Rightarrow> datetime \<Rightarrow> int" where
  "days_between a b = (a - b) div US_PER_DAY"

section \<open>Decay model\<close>

definition SAFE_THRESHOLD :: real where
  "SAFE_THRESHOLD = 1000"

text \<open>
  \<^verbatim>\<open>_calc_decay_date(isotopes, initial_activity)\<close>; \<open>now\<close> is the reading of
  \<^verbatim>\<open>datetime.now()\<close> on the path taken (each path reads the clock once).
\<close>

definition calc_decay_date :: "datetime \<Rightarrow> string list \<Rightarrow> real \<Rightarrow> error + datetime" where
  "calc_decay_date now isos initial_activity =
     (if isos = [] then
        (case timedelta_days 365 of
           Inl e \<Rightarrow> Inl e
         | Inr delta \<Rightarrow> datetime_add now delta)
      else
        let max_half_life = max_seq (map (\<lambda>iso. dict_get HALF_LIVES iso 1) isos)
        in if initial_activity \<le> SAFE_THRESHOLD then Inr now
           else
             let years_needed =
                   max_half_life * ln (initial_activity / SAFE_THRESHOLD) / ln 2
             in (case timedelta_days (years_needed * 365) of
                   Inl e \<Rightarrow> Inl e
                 | Inr delta \<Rightarrow> datetime_add now delta))"

section \<open>Ledger operations\<close>

text \<open>\<^verbatim>\<open>SELECT ... FROM containers WHERE id = ?\<close> followed by \<^verbatim>\<open>fetchone()\<close>.\<close>

definition select_container :: "db \<Rightarrow> string \<Rightarrow> WasteContainer option" where
  "select_container s cid = find (\<lambda>c. id_c c = cid) (containers s)"

text \<open>\<^verbatim>\<open>SELECT ... FROM transfers WHERE id = ?\<close> followed by \<^verbatim>\<open>fetchone()\<close>.\<close>

definition select_transfer :: "db \<Rightarrow> int \<Rightarrow> TransferRecord option" where
  "select_transfer s tid = map_option snd (find (\<lambda>r. fst r = tid) (transfers s))"

text \<open>
  \<^verbatim>\<open>register_container\<close>. \<open>uuid\<close> is \<^verbatim>\<open>str(uuid.uuid4())[:8]\<close>, \<open>now0\<close> the clock
  reading stored as \<^verbatim>\<open>created_at\<close>, \<open>now\<close> the later reading inside
  \<^verbatim>\<open>_calc_decay_date\<close>. The \<^verbatim>\<open>INSERT\<close> raises \<^verbatim>\<open>sqlite3.IntegrityError\<close> on a primary key
  that is already present; the result is the new id and the new database.
\<close>

definition register_container ::
  "string \<Rightarrow> datetime \<Rightarrow> datetime \<Rightarrow> db \<Rightarrow> string \<Rightarrow> string \<Rightarrow> string list \<Rightarrow> real \<Rightarrow> real \<Rightarrow> real
     \<Rightarrow> string \<Rightarrow> string \<Rightarrow> error + (string \<times> db)" where
  "register_container uuid now0 now s lbl wtype isos activity vol mass loc sclass =
     (case calc_decay_date now isos activity of
        Inl e \<Rightarrow> Inl e
      | Inr dd \<Rightarrow>
          if uuid \<in> set (map id_c (containers s)) then Inl IntegrityError
          else Inr (uuid,
                 s\<lparr>containers := containers s @
                      [\<lparr>id_c = uuid, label = lbl, waste_type = wtype, isotopes = isos,
                        activity_bq = activity, volume_l = vol, mass_kg = mass,
                        location = loc, storage_class = sclass, created_at = now0,
                        decay_date = dd, status = ''active''\<rparr>]\<rparr>))"

text \<open>\<^verbatim>\<open>transfer(container_id, to_location, transferred_by)\<close>: the returned flag and the database.\<close>

definition transfer :: "datetime \<Rightarrow> db \<Rightarrow> string \<Rightarrow> string \<Rightarrow> string \<Rightarrow> bool \<times> db" where
  "transfer now s cid to_loc by_whom =
     (case select_container s cid of
        None \<Rightarrow> (False, s)
      | Some row \<Rightarrow>
          let from_loc = location row;
              rec = \<lparr>container_id = cid, from_location = from_loc, to_location = to_loc,
                     transferred_by = by_whom, ts = now, manifested = False\<rparr>
          in (True,
              s\<lparr>transfers := transfers s @ [(transfer_seq s + 1, rec)],
                transfer_seq := transfer_seq s + 1,
                containers :=
                  map (\<lambda>c. if id_c c = cid then c\<lparr>location := to_loc\<rparr> else c) (containers s)\<rparr>))"

text \<open>\<^verbatim>\<open>decay_correct(container_id)\<close>; a missing container gives 0.\<close>

definition decay_correct :: "datetime \<Rightarrow> db \<Rightarrow> string \<Rightarrow> real" where
  "decay_correct now s cid =
     (case select_container s cid of
        None \<Rightarrow> 0
      | Some row \<Rightarrow>
          let isos = isotopes row;
              initial_activity = activity_bq row;
              created = created_at row;
              avg_half_life =
                (if isos \<noteq> [] then
                   sum_list (map (\<lambda>iso. dict_get HALF_LIVES iso 1) isos) / real (length isos)
                 else 1);
              elapsed_years = real_of_int (days_between now created) / 365.25
          in initial_activity * (0.5 powr (elapsed_years / avg_half_life)))"

section \<open>Reporting and compliance\<close>

text \<open>Truth value of an optional string argument: \<^verbatim>\<open>None\<close> and \<^verbatim>\<open>""\<close> are false.\<close>

fun truthy :: "string option \<Rightarrow> bool" where
  "truthy None = False"
| "truthy (Some v) = (v \<noteq> [])"

definition get_inventory :: "db \<Rightarrow> string option \<Rightarrow> string option \<Rightarrow> WasteContainer list" where
  "get_inventory s loc wtype =
     (let query = [\<lambda>c. status c = ''active''];
          query = (if truthy loc then query @ [\<lambda>c. location c = the loc] else query);
          query = (if truthy wtype then query @ [\<lambda>c. waste_type c = the wtype] else query)
      in filter (\<lambda>c. list_all (\<lambda>cond. cond c) query) (containers s))"

text \<open>SQL \<^verbatim>\<open>SUM\<close>: \<^verbatim>\<open>NULL\<close> over no rows.\<close>

definition sql_sum :: "real list \<Rightarrow> real option" where
  "sql_sum xs = (if xs = [] then None else Some (sum_list xs))"

definition total_activity :: "db \<Rightarrow> string option \<Rightarrow> real" where
  "total_activity s loc =
     (let result =
            (if truthy loc then
               sql_sum (map activity_bq
                 (filter (\<lambda>c. location c = the loc \<and> status c = ''active'') (containers s)))
             else
               sql_sum (map activity_bq (filter (\<lambda>c. status c = ''active'') (containers s))))
      in case result of None \<Rightarrow> 0 | Some r \<Rightarrow> if r \<noteq> 0 then r else 0)"

record violation =
  v_container_id :: string
  v_activity_bq :: real
  v_limit_bq :: real

record issues =
  storage_class_violations :: "violation list"
  expired_containers :: "string list"
  missing_manifests :: "string list"

text \<open>
  The first loop of \<^verbatim>\<open>compliance_check\<close>, over the rows already selected as active.
  The first two queries scan the table in insertion order. The third looks each id of the
  \<^verbatim>\<open>IN\<close> set up through the index of the primary key, so its rows come in the order of
  the ids (byte-wise, the order of \<^typ>\<open>string\<close>).
\<close>

fun check_limits :: "WasteContainer list \<Rightarrow> violation list" where
  "check_limits [] = []"
| "check_limits (c # cs) =
     (let limit = dict_get STORAGE_LIMITS (storage_class c) 1000000
      in if activity_bq c > limit then
           \<lparr>v_container_id = id_c c, v_activity_bq = activity_bq c, v_limit_bq = limit\<rparr>
             # check_limits cs
         else check_limits cs)"

definition compliance_check :: "datetime \<Rightarrow> db \<Rightarrow> issues" where
  "compliance_check now s =
     \<lparr>storage_class_violations =
        check_limits (filter (\<lambda>c. status c = ''active'') (containers s)),
      expired_containers =
        map id_c (filter (\<lambda>c. decay_date c < now \<and> status c = ''active'') (containers s)),
      missing_manifests =
        map id_c
          (sort_key id_c
             (filter (\<lambda>c. id_c c \<in> set (map (container_id \<circ> snd)
                                         (filter (\<lambda>r. \<not> manifested (snd r)) (transfers s)))
                           \<and> status c = ''active'')
                (containers s)))\<rparr>"

section \<open>Manifest\<close>

text \<open>
  The text renderings the manifest's f-string relies on are library functions of Python;
  they are parameters here: \<^verbatim>\<open>datetime.isoformat\<close>, \<^verbatim>\<open>format(x, ".2e")\<close>, \<^verbatim>\<open>str\<close> of a
  float, \<^verbatim>\<open>str\<close> of an int, and \<^verbatim>\<open>json.dumps\<close> of the isotope list (the stored column).
\<close>

record rendering =
  isoformat :: "datetime \<Rightarrow> string"
  format_2e :: "real \<Rightarrow> string"
  str_float :: "real \<Rightarrow> string"
  str_int :: "int \<Rightarrow> string"
  json_dumps :: "string list \<Rightarrow> string"

text \<open>A triple-quoted block: every line of the list followed by a newline.\<close>

definition text_block :: "string list \<Rightarrow> string" where
  "text_block ls = concat (map (\<lambda>l. l @ ''\<newline>'') ls)"

text \<open>\<^verbatim>\<open>generate_manifest(transfer_id)\<close>; the empty string is the not-found signal.\<close>

definition generate_manifest :: "rendering \<Rightarrow> datetime \<Rightarrow> db \<Rightarrow> int \<Rightarrow> string" where
  "generate_manifest R now s transfer_id =
     (case select_transfer s transfer_id of
        None \<Rightarrow> ''''
      | Some tr \<Rightarrow>
          (case select_container s (container_id tr) of
             None \<Rightarrow> ''''
           | Some c \<Rightarrow>
               text_block
                 ['''',
                  ''NUCLEAR WASTE TRANSFER MANIFEST'',
                  ''Generated: '' @ isoformat R now,
                  '''',
                  ''CONTAINER INFORMATION:'',
                  ''  ID: '' @ container_id tr,
                  ''  Label: '' @ label c,
                  ''  Waste Type: '' @ waste_type c,
                  ''  Isotopes: '' @ json_dumps R (isotopes c),
                  ''  Activity: '' @ format_2e R (activity_bq c) @ '' Bq'',
                  ''  Volume: '' @ str_float R (volume_l c) @ '' L'',
                  ''  Mass: '' @ str_float R (mass_kg c) @ '' kg'',
                  '''',
                  ''TRANSFER DETAILS:'',
                  ''  From: '' @ from_location tr,
                  ''  To: '' @ to_location tr,
                  ''  Transferred By: '' @ transferred_by tr,
                  ''  Date: '' @ isoformat R (ts tr),
                  ''  Transfer ID: '' @ str_int R transfer_id,
                  '''',
                  ''CERTIFICATION:'',
                  ''This document certifies proper handling and transfer of radioactive material'',
                  ''in compliance with regulatory requirements.'']))"

section \<open>The specification's wording\<close>

text \<open>
  The current-activity formula as the specification words it: the half-life of an isotope is
  its table entry, 1 year when it has none; the half-life of a composition is the arithmetic
  mean over the listed isotopes, 1 year for an empty composition; the activity after
  \<open>elapsed_years\<close> is the initial one times one half to the power
  \<open>elapsed_years / avg_half_life\<close>.
\<close>

definition half_life_of :: "string \<Rightarrow> real" where
  "half_life_of name = (case HALF_LIVES name of Some years \<Rightarrow> years | None \<Rightarrow> 1)"

definition avg_half_life_spec :: "string list \<Rightarrow> real" where
  "avg_half_life_spec isos =
     (if isos = [] then 1
      else (\<Sum>i < length isos. half_life_of (isos ! i)) / real (length isos))"

definition current_activity_spec :: "string list \<Rightarrow> real \<Rightarrow> real \<Rightarrow> real" where
  "current_activity_spec isos a0 elapsed_years =
     a0 * (1 / 2) powr (elapsed_years / avg_half_life_spec isos)"

text \<open>The storage-class limits as the specification lists them, in Bq.\<close>

definition limit_spec :: "string \<Rightarrow> real" where
  "limit_spec sc =
     (if sc = ''low_level'' then 10 ^ 6
      else if sc = ''intermediate'' then 10 ^ 9
      else if sc = ''high_level'' then 10 ^ 12
      else if sc = ''transuranic'' then 10 ^ 6
      else if sc = ''exempt'' then 10 ^ 3
      else 10 ^ 6)"

section \<open>Report entries\<close>

text \<open>The entry \<^verbatim>\<open>compliance_check\<close> reports for a container over its limit.\<close>

definition violation_of :: "WasteContainer \<Rightarrow> violation" where
  "violation_of c =
     \<lparr>v_container_id = id_c c, v_activity_bq = activity_bq c,
      v_limit_bq = limit_spec (storage_class c)\<rparr>"

text \<open>The lines of a manifest that carry data of the transfer and of its container.\<close>

definition manifest_lines ::
  "rendering \<Rightarrow> int \<Rightarrow> TransferRecord \<Rightarrow> WasteContainer \<Rightarrow> string list" where
  "manifest_lines R transfer_id tr c =
     [''  ID: '' @ container_id tr,
      ''  Label: '' @ label c,
      ''  Waste Type: '' @ waste_type c,
      ''  Isotopes: '' @ json_dumps R (isotopes c),
      ''  Activity: '' @ format_2e R (activity_bq c) @ '' Bq'',
      ''  Volume: '' @ str_float R (volume_l c) @ '' L'',
      ''  Mass: '' @ str_float R (mass_kg c) @ '' kg'',
      ''  From: '' @ from_location tr,
      ''  To: '' @ to_location tr,
      ''  Transferred By: '' @ transferred_by tr,
      ''  Date: '' @ isoformat R (ts tr),
      ''  Transfer ID: '' @ str_int R transfer_id]"

section \<open>Sample data\<close>

text \<open>
  A drum registered at microsecond 63900000000000000 (late in the year 2025), a transfer of
  it, the database before and after that transfer, a database whose only transfer points
  to no container, a second drum holding an isotope the table does not list, and a
  rendering with fixed placeholders.
\<close>

definition sample_container :: WasteContainer where
  "sample_container =
     \<lparr>id_c = ''a1b2c3d4'', label = ''Drum 7'', waste_type = ''low_level'',
      isotopes = [''Cs-137'', ''Co-60''], activity_bq = 5000, volume_l = 200, mass_kg = 350,
      location = ''Bay A'', storage_class = ''exempt'', created_at = 63900000000000000,
      decay_date = 63931536000000000, status = ''active''\<rparr>"

definition sample_db :: db where
  "sample_db = \<lparr>containers = [sample_container], transfers = [], transfer_seq = 0\<rparr>"

definition sample_transfer :: TransferRecord where
  "sample_transfer =
     \<lparr>container_id = ''a1b2c3d4'', from_location = ''Bay A'', to_location = ''Bay B'',
      transferred_by = ''op1'', ts = 63900000000000001, manifested = False\<rparr>"

definition moved_db :: db where
  "moved_db =
     \<lparr>containers = [sample_container\<lparr>location := ''Bay B''\<rparr>],
      transfers = [(1, sample_transfer)], transfer_seq = 1\<rparr>"

definition orphan_db :: db where
  "orphan_db = \<lparr>containers = [], transfers = [(1, sample_transfer)], transfer_seq = 1\<rparr>"

definition unlisted_container :: WasteContainer where
  "unlisted_container =
     \<lparr>id_c = ''0f9e8d7c'', label = ''Drum 9'', waste_type = ''intermediate'',
      isotopes = [''U-235''], activity_bq = 1600, volume_l = 60, mass_kg = 90,
      location = ''Vault 2'', storage_class = ''intermediate'', created_at = 63900000000000000,
      decay_date = 63900000000000000, status = ''active''\<rparr>"

definition two_drums_db :: db where
  "two_drums_db =
     \<lparr>containers = [sample_container, unlisted_container], transfers = [], transfer_seq = 0\<rparr>"

definition plain_rendering :: rendering where
  "plain_rendering =
     \<lparr>isoformat = (\<lambda>t. ''<time>''), format_2e = (\<lambda>x. ''<x.xxe+xx>''),
      str_float = (\<lambda>x. ''<float>''), str_int = (\<lambda>n. ''<int>''),
      json_dumps = (\<lambda>l. ''<json>'')\<rparr>"

section \<open>Decay date: \<^verbatim>\<open>_calc_decay_date\<close>\<close>

lemma half_life_pos: "0 < dict_get HALF_LIVES name 1"
  by (simp add: dict_get_def HALF_LIVES_def)

lemma fold_max_ge: "(a::real) \<le> fold max xs a"
  by (induction xs arbitrary: a) (auto intro: order_trans [OF max.cobounded2])

lemma max_seq_pos: "xs \<noteq> [] \<Longrightarrow> \<forall>x \<in> set xs. 0 < x \<Longrightarrow> 0 < max_seq xs"
  by (cases xs) (auto intro: less_le_trans [OF _ fold_max_ge])

lemma max_half_life_pos:
  "isos \<noteq> [] \<Longrightarrow> 0 < max_seq (map (\<lambda>n. dict_get HALF_LIVES n 1) isos)"
  by (rule max_seq_pos) (auto simp: half_life_pos)

lemma py_round_nonneg: "0 \<le> x \<Longrightarrow> 0 \<le> py_round x"
  by (auto simp: py_round_def Let_def)

lemma timedelta_days_365: "timedelta_days 365 = Inr 31536000000000"
  by (simp add: timedelta_days_def py_round_def US_PER_DAY_def)

lemma timedelta_days_cases:
  "0 \<le> x \<Longrightarrow>
     timedelta_days x = Inl OverflowError \<or> (\<exists>d. timedelta_days x = Inr d \<and> 0 \<le> d)"
  using py_round_nonneg [of "x * of_int US_PER_DAY"]
  by (auto simp: timedelta_days_def Let_def US_PER_DAY_def)

lemma datetime_add_cases:
  "0 \<le> d \<Longrightarrow>
     datetime_add t d = Inl OverflowError \<or> (\<exists>r. datetime_add t d = Inr r \<and> t \<le> r)"
  by (auto simp: datetime_add_def Let_def)

lemma years_needed_nonneg:
  assumes "isos \<noteq> []" and "SAFE_THRESHOLD < a"
  shows "0 \<le> max_seq (map (\<lambda>n. dict_get HALF_LIVES n 1) isos)
               * ln (a / SAFE_THRESHOLD) / ln 2 * 365"
proof -
  have "0 < ln (a / SAFE_THRESHOLD)"
    using assms(2) by (simp add: SAFE_THRESHOLD_def)
  moreover have "0 < ln (2::real)" by simp
  moreover note max_half_life_pos [OF assms(1)]
  ultimately show ?thesis by simp
qed

text \<open>
  Two runs of the estimator. Cobalt-60 at twice the threshold needs exactly one half-life,
  5.27 years of 365 days. Plutonium-239 at the same activity needs 24100 years, which no
  \<^verbatim>\<open>datetime\<close> can hold: the addition raises \<^verbatim>\<open>OverflowError\<close>.
\<close>

lemma calc_decay_date_cobalt:
  "calc_decay_date 63900000000000000 [''Co-60''] 2000 = Inr 64066194720000000"
  by (simp add: calc_decay_date_def SAFE_THRESHOLD_def dict_get_def HALF_LIVES_def
      timedelta_days_def py_round_def US_PER_DAY_def datetime_add_def DATETIME_MAX_def)

lemma calc_decay_date_plutonium:
  "calc_decay_date 63900000000000000 [''Pu-239''] 2000 = Inl OverflowError"
  by (simp add: calc_decay_date_def SAFE_THRESHOLD_def dict_get_def HALF_LIVES_def
      timedelta_days_def py_round_def US_PER_DAY_def datetime_add_def DATETIME_MAX_def)

text \<open>
  Claim C1, as amended. For every non-negative activity of at most 1000 Bq and every
  \<^emph>\<open>non-empty\<close> isotope list, \<^verbatim>\<open>_calc_decay_date\<close> returns \<open>now\<close>: the container is
  already safe. (The empty list is decided first and gives one year from now, see C2.)
\<close>

theorem calc_decay_date_safe_now:
  "0 \<le> a \<Longrightarrow> a \<le> 1000 \<Longrightarrow> isos \<noteq> [] \<Longrightarrow> calc_decay_date now isos a = Inr now"
  by (simp add: calc_decay_date_def SAFE_THRESHOLD_def)

theorem calc_decay_date_safe_now_witness:
  "(0::real) \<le> 500 \<and> (500::real) \<le> 1000 \<and> [''Cs-137'', ''U-235''] \<noteq> []
   \<and> calc_decay_date 63900000000000000 [''Cs-137'', ''U-235''] 500 = Inr 63900000000000000"
  using calc_decay_date_safe_now [of 500 "[''Cs-137'', ''U-235'']" 63900000000000000]
  by simp

text \<open>
  Claim C1 as stated also covers the empty isotope list; there an activity of 500 Bq gives
  the date one year after \<open>now\<close>, not \<open>now\<close>.
\<close>

theorem calc_decay_date_safe_empty_counterexample:
  "(0::real) \<le> 500 \<and> (500::real) \<le> 1000
   \<and> calc_decay_date 63900000000000000 [] 500 = Inr 63931536000000000
   \<and> calc_decay_date 63900000000000000 [] 500 \<noteq> Inr 63900000000000000"
  by (simp add: calc_decay_date_def timedelta_days_def py_round_def US_PER_DAY_def
      datetime_add_def DATETIME_MAX_def)

text \<open>
  Claim C2. For every initial activity, \<^verbatim>\<open>_calc_decay_date\<close> on the empty isotope list
  returns \<open>now\<close> plus 365 days, whatever the activity: the result is that of the
  \<^verbatim>\<open>datetime\<close> addition, which is the instant 365 days later whenever that instant is a
  \<^verbatim>\<open>datetime\<close> (up to the end of year 9999).
\<close>

theorem calc_decay_date_empty:
  "calc_decay_date now [] a = datetime_add now (365 * US_PER_DAY)
   \<and> (0 \<le> now \<and> now + 365 * US_PER_DAY \<le> DATETIME_MAX \<longrightarrow>
        calc_decay_date now [] a = Inr (now + 365 * US_PER_DAY))"
  by (simp add: calc_decay_date_def timedelta_days_365 US_PER_DAY_def datetime_add_def)

theorem calc_decay_date_empty_witness:
  "(0::int) \<le> 63900000000000000
   \<and> 63900000000000000 + 365 * US_PER_DAY \<le> DATETIME_MAX
   \<and> calc_decay_date 63900000000000000 [] 123456789 = Inr 63931536000000000
   \<and> calc_decay_date 63900000000000000 [] (- 1) = Inr 63931536000000000"
proof -
  have r: "(0::int) \<le> 63900000000000000
           \<and> 63900000000000000 + 365 * US_PER_DAY \<le> DATETIME_MAX"
    by (simp add: US_PER_DAY_def DATETIME_MAX_def)
  from calc_decay_date_empty [of 63900000000000000 123456789] r
  have a: "calc_decay_date 63900000000000000 [] 123456789
             = Inr (63900000000000000 + 365 * US_PER_DAY)"
    by blast
  from calc_decay_date_empty [of 63900000000000000 "- 1"] r
  have b: "calc_decay_date 63900000000000000 [] (- 1)
             = Inr (63900000000000000 + 365 * US_PER_DAY)"
    by blast
  have e: "63900000000000000 + 365 * US_PER_DAY = 63931536000000000"
    by (simp add: US_PER_DAY_def)
  from r a b show ?thesis unfolding e by blast
qed

text \<open>
  Claim C4. For every isotope list and every non-negative initial activity, the timestamp
  \<^verbatim>\<open>_calc_decay_date\<close> returns is at or after \<open>now\<close>. The only way not to return a
  timestamp is the \<^verbatim>\<open>OverflowError\<close> of the date arithmetic.
\<close>

theorem calc_decay_date_ge_now:
  assumes "0 \<le> a"
  shows "case calc_decay_date now isos a of Inr t \<Rightarrow> now \<le> t | Inl e \<Rightarrow> e = OverflowError"
proof (cases "isos = []")
  case True
  then show ?thesis
    using datetime_add_cases [of 31536000000000 now]
    by (auto simp: calc_decay_date_def timedelta_days_365)
next
  case ne: False
  show ?thesis
  proof (cases "a \<le> SAFE_THRESHOLD")
    case True
    with ne show ?thesis by (simp add: calc_decay_date_def)
  next
    case False
    then have gt: "SAFE_THRESHOLD < a" by simp
    let ?x = "max_seq (map (\<lambda>n. dict_get HALF_LIVES n 1) isos)
                * ln (a / SAFE_THRESHOLD) / ln 2 * 365"
    have eq: "calc_decay_date now isos a =
        (case timedelta_days ?x of Inl e \<Rightarrow> Inl e | Inr delta \<Rightarrow> datetime_add now delta)"
      using ne False by (simp add: calc_decay_date_def)
    from timedelta_days_cases [OF years_needed_nonneg [OF ne gt]]
    show ?thesis
    proof
      assume "timedelta_days ?x = Inl OverflowError"
      with eq show ?thesis by simp
    next
      assume "\<exists>d. timedelta_days ?x = Inr d \<and> 0 \<le> d"
      then obtain d where d: "timedelta_days ?x = Inr d" "0 \<le> d" by blast
      from datetime_add_cases [OF d(2), of now] eq d(1)
      show ?thesis by auto
    qed
  qed
qed

theorem calc_decay_date_ge_now_witness:
  "(0::real) \<le> 2000
   \<and> calc_decay_date 63900000000000000 [''Co-60''] 2000 = Inr 64066194720000000
   \<and> (63900000000000000::int) \<le> 64066194720000000"
  using calc_decay_date_ge_now [of 2000 63900000000000000 "[''Co-60'']"]
  by (simp add: calc_decay_date_cobalt)

section \<open>Current activity: \<^verbatim>\<open>decay_correct\<close>\<close>

lemma dict_get_half_life: "dict_get HALF_LIVES n 1 = half_life_of n"
  by (auto simp: dict_get_def half_life_of_def split: option.splits)

lemma avg_half_life_code:
  "(if isos \<noteq> [] then
      sum_list (map (\<lambda>n. dict_get HALF_LIVES n 1) isos) / real (length isos)
    else 1) = avg_half_life_spec isos"
  by (simp add: avg_half_life_spec_def dict_get_half_life sum_list_sum_nth atLeast0LessThan)

lemma select_container_existing:
  assumes "cid \<in> set (map id_c (containers s))"
  shows "\<exists>c. select_container s cid = Some c \<and> c \<in> set (containers s) \<and> id_c c = cid"
proof (cases "select_container s cid")
  case None
  with assms show ?thesis by (auto simp: select_container_def find_None_iff)
next
  case (Some c)
  then show ?thesis by (auto simp: select_container_def find_Some_iff)
qed

text \<open>
  The mean is not the maximum: caesium-137 with cobalt-60 averages 17.72 years, below the
  30.17 years of caesium. An isotope outside the table counts as 1 year, and so does the
  empty composition.
\<close>

lemma avg_half_life_mixed: "avg_half_life_spec [''Cs-137'', ''Co-60''] = 17.72"
  by (simp add: avg_half_life_spec_def half_life_of_def HALF_LIVES_def lessThan_Suc
      numeral_2_eq_2)

lemma avg_half_life_unknown: "avg_half_life_spec [''U-235''] = 1"
  by (simp add: avg_half_life_spec_def half_life_of_def HALF_LIVES_def)

lemma avg_half_life_empty: "avg_half_life_spec [] = 1"
  by (simp add: avg_half_life_spec_def)

lemma select_container_missing:
  "cid \<notin> set (map id_c (containers s)) \<Longrightarrow> select_container s cid = None"
  by (auto simp: select_container_def find_None_iff)

lemma decay_correct_missing:
  "cid \<notin> set (map id_c (containers s)) \<Longrightarrow> decay_correct now s cid = 0"
  by (simp add: decay_correct_def select_container_missing)

lemma half_powr_bounds:
  assumes "0 < x" and "x < 1"
  shows "1 / 2 < (1 / 2 :: real) powr x \<and> (1 / 2 :: real) powr x < 1"
proof -
  have "(1 / 2 :: real) powr x < (1 / 2) powr 0"
    using assms by (intro powr_less_mono') simp_all
  moreover have "(1 / 2 :: real) powr 1 < (1 / 2) powr x"
    using assms by (intro powr_less_mono') simp_all
  ultimately show ?thesis by simp
qed

text \<open>
  Claim C3. For every existing container, \<^verbatim>\<open>decay_correct\<close> returns the stored initial
  activity times one half to the power elapsed years over average half-life. The elapsed
  years are the whole days from \<^verbatim>\<open>created_at\<close> to now, that is the difference in
  microseconds divided (rounding down) by the 86400000000 microseconds of a day, over
  365.25. The average is the mean (not the maximum) over the listed isotopes, with 1 year
  for an isotope outside the table and 1 year for the empty list. When no whole day has
  elapsed the result is the initial activity itself.
\<close>

theorem decay_correct_formula:
  assumes "cid \<in> set (map id_c (containers s))"
  shows "\<exists>c. select_container s cid = Some c \<and> c \<in> set (containers s) \<and> id_c c = cid
           \<and> decay_correct now s cid =
               current_activity_spec (isotopes c) (activity_bq c)
                 (real_of_int ((now - created_at c) div 86400000000) / 365.25)
           \<and> (0 \<le> now - created_at c \<and> now - created_at c < 86400000000 \<longrightarrow>
                decay_correct now s cid = activity_bq c)"
proof -
  from select_container_existing [OF assms] obtain c where
    c: "select_container s cid = Some c" "c \<in> set (containers s)" "id_c c = cid"
    by blast
  have f: "decay_correct now s cid =
          activity_bq c * (0.5 powr (real_of_int ((now - created_at c) div 86400000000) / 365.25
                                       / avg_half_life_spec (isotopes c)))"
    using c(1)
    by (simp add: decay_correct_def Let_def avg_half_life_code days_between_def US_PER_DAY_def)
  then have g: "decay_correct now s cid =
               current_activity_spec (isotopes c) (activity_bq c)
                 (real_of_int ((now - created_at c) div 86400000000) / 365.25)"
    by (simp add: current_activity_spec_def)
  have "decay_correct now s cid = activity_bq c"
    if "0 \<le> now - created_at c \<and> now - created_at c < 86400000000"
  proof -
    from that have "(now - created_at c) div 86400000000 = 0" by simp
    with f show ?thesis by simp
  qed
  with g c show ?thesis by blast
qed

text \<open>
  Three readings. The sample drum of caesium-137 and cobalt-60 (mean half-life 17.72 years)
  500 microseconds after registration: 5000 Bq, unchanged. The same drum 3652 days later:
  5000 Bq times one half to the power 3652 / 365.25 / 17.72, strictly between 2500 and 5000.
  The drum of unlisted uranium-235 (1 year) 1461 days later, four years of 365.25 days:
  1600 Bq over sixteen.
\<close>

theorem decay_correct_formula_witness:
  "''a1b2c3d4'' \<in> set (map id_c (containers two_drums_db))
   \<and> ''0f9e8d7c'' \<in> set (map id_c (containers two_drums_db))
   \<and> decay_correct 63900000000000500 two_drums_db ''a1b2c3d4'' = 5000
   \<and> decay_correct 64215532800000500 two_drums_db ''a1b2c3d4''
       = 5000 * (1 / 2) powr (3652 / 365.25 / 17.72)
   \<and> 2500 < decay_correct 64215532800000500 two_drums_db ''a1b2c3d4''
   \<and> decay_correct 64215532800000500 two_drums_db ''a1b2c3d4'' < 5000
   \<and> decay_correct 64026230400000000 two_drums_db ''0f9e8d7c'' = 100"
proof -
  have h1: "''a1b2c3d4'' \<in> set (map id_c (containers two_drums_db))"
    by (simp add: two_drums_db_def sample_container_def)
  have h2: "''0f9e8d7c'' \<in> set (map id_c (containers two_drums_db))"
    by (simp add: two_drums_db_def unlisted_container_def)
  have s1: "select_container two_drums_db ''a1b2c3d4'' = Some sample_container"
    by (simp add: select_container_def two_drums_db_def sample_container_def)
  have s2: "select_container two_drums_db ''0f9e8d7c'' = Some unlisted_container"
    by (simp add: select_container_def two_drums_db_def sample_container_def
        unlisted_container_def)
  have avg1: "avg_half_life_spec (isotopes sample_container) = 17.72"
    by (simp add: sample_container_def avg_half_life_mixed)
  have avg2: "avg_half_life_spec (isotopes unlisted_container) = 1"
    by (simp add: unlisted_container_def avg_half_life_unknown)
  from decay_correct_formula [OF h1, of 63900000000000500] s1
  have "0 \<le> 63900000000000500 - created_at sample_container
          \<and> 63900000000000500 - created_at sample_container < 86400000000 \<longrightarrow>
        decay_correct 63900000000000500 two_drums_db ''a1b2c3d4'' = activity_bq sample_container"
    by auto
  then have a: "decay_correct 63900000000000500 two_drums_db ''a1b2c3d4'' = 5000"
    by (simp add: sample_container_def)
  from decay_correct_formula [OF h1, of 64215532800000500] s1
  have "decay_correct 64215532800000500 two_drums_db ''a1b2c3d4'' =
          current_activity_spec (isotopes sample_container) (activity_bq sample_container)
            (real_of_int ((64215532800000500 - created_at sample_container) div 86400000000)
               / 365.25)"
    by auto
  then have b: "decay_correct 64215532800000500 two_drums_db ''a1b2c3d4''
                  = 5000 * (1 / 2) powr (3652 / 365.25 / 17.72)"
    unfolding current_activity_spec_def avg1 by (simp add: sample_container_def)
  have "1 / 2 < (1 / 2 :: real) powr (3652 / 365.25 / 17.72)
          \<and> (1 / 2 :: real) powr (3652 / 365.25 / 17.72) < 1"
    by (rule half_powr_bounds) simp_all
  with b have b': "2500 < decay_correct 64215532800000500 two_drums_db ''a1b2c3d4''
                   \<and> decay_correct 64215532800000500 two_drums_db ''a1b2c3d4'' < 5000"
    by simp
  from decay_correct_formula [OF h2, of 64026230400000000] s2
  have "decay_correct 64026230400000000 two_drums_db ''0f9e8d7c'' =
          current_activity_spec (isotopes unlisted_container) (activity_bq unlisted_container)
            (real_of_int ((64026230400000000 - created_at unlisted_container) div 86400000000)
               / 365.25)"
    by auto
  then have c: "decay_correct 64026230400000000 two_drums_db ''0f9e8d7c'' = 100"
    unfolding current_activity_spec_def avg2
    by (simp add: unlisted_container_def power_divide)
  from h1 h2 a b b' c show ?thesis by blast
qed

section \<open>Compliance: storage class limits\<close>

lemma storage_limit_eq: "dict_get STORAGE_LIMITS sc 1000000 = limit_spec sc"
  by (simp add: dict_get_def STORAGE_LIMITS_def limit_spec_def)

lemma check_limits_eq:
  "check_limits cs =
     map violation_of (filter (\<lambda>c. activity_bq c > limit_spec (storage_class c)) cs)"
  by (induction cs) (simp_all add: Let_def storage_limit_eq violation_of_def)

text \<open>
  Claim C5. For every active container, \<^verbatim>\<open>compliance_check\<close> lists its violation entry
  (its id, its stored activity, its limit) exactly when the stored \<^verbatim>\<open>activity_bq\<close> is
  strictly above the limit of its storage class: 1e6 for low_level, 1e9 for intermediate,
  1e12 for high_level, 1e6 for transuranic, 1e3 for exempt, and 1e6 for any other class.
  The clock plays no part. With ids unique, as the primary key makes them, some entry
  carries the container's id exactly in that case.
\<close>

theorem compliance_storage_class_violation:
  assumes "c \<in> set (containers s)" and "status c = ''active''"
  shows "(violation_of c \<in> set (storage_class_violations (compliance_check now s)))
           = (activity_bq c > limit_spec (storage_class c))
         \<and> (distinct (map id_c (containers s)) \<longrightarrow>
              (\<exists>v \<in> set (storage_class_violations (compliance_check now s)).
                  v_container_id v = id_c c)
              = (activity_bq c > limit_spec (storage_class c)))"
proof (intro conjI impI)
  show "(violation_of c \<in> set (storage_class_violations (compliance_check now s)))
           = (activity_bq c > limit_spec (storage_class c))"
    using assms by (auto simp: compliance_check_def check_limits_eq violation_of_def)
next
  assume "distinct (map id_c (containers s))"
  then have inj: "inj_on id_c (set (containers s))" by (simp add: distinct_map)
  show "(\<exists>v \<in> set (storage_class_violations (compliance_check now s)).
            v_container_id v = id_c c)
          = (activity_bq c > limit_spec (storage_class c))"
  proof
    assume "\<exists>v \<in> set (storage_class_violations (compliance_check now s)).
               v_container_id v = id_c c"
    then obtain c' where c': "c' \<in> set (containers s)" "id_c c' = id_c c"
        "activity_bq c' > limit_spec (storage_class c')"
      by (auto simp: compliance_check_def check_limits_eq violation_of_def)
    from inj c'(1) assms(1) c'(2) have "c' = c" by (simp add: inj_on_eq_iff)
    with c'(3) show "activity_bq c > limit_spec (storage_class c)" by simp
  next
    assume "activity_bq c > limit_spec (storage_class c)"
    with assms
    show "\<exists>v \<in> set (storage_class_violations (compliance_check now s)).
             v_container_id v = id_c c"
      by (auto simp: compliance_check_def check_limits_eq violation_of_def)
  qed
qed

theorem compliance_storage_class_violation_witness:
  "sample_container \<in> set (containers sample_db) \<and> status sample_container = ''active''
   \<and> distinct (map id_c (containers sample_db))
   \<and> activity_bq sample_container > limit_spec (storage_class sample_container)
   \<and> violation_of sample_container
        \<in> set (storage_class_violations (compliance_check 0 sample_db))
   \<and> (\<exists>v \<in> set (storage_class_violations (compliance_check 0 sample_db)).
          v_container_id v = id_c sample_container)"
proof -
  have a: "sample_container \<in> set (containers sample_db)" by (simp add: sample_db_def)
  have b: "status sample_container = ''active''" by (simp add: sample_container_def)
  have c: "distinct (map id_c (containers sample_db))" by (simp add: sample_db_def)
  have d: "activity_bq sample_container > limit_spec (storage_class sample_container)"
    by (simp add: sample_container_def limit_spec_def)
  from compliance_storage_class_violation [OF a b, of 0] c d a b show ?thesis by simp
qed

text \<open>The report of the sample database: the exempt drum at 5000 Bq against 1000 Bq.\<close>

lemma compliance_check_sample:
  "storage_class_violations (compliance_check 63900000000000500 sample_db) =
     [\<lparr>v_container_id = ''a1b2c3d4'', v_activity_bq = 5000, v_limit_bq = 1000\<rparr>]"
  by (simp add: compliance_check_def sample_db_def sample_container_def dict_get_def
      STORAGE_LIMITS_def)

text \<open>
  Two drums with one unmanifested transfer each: the drum registered second has the smaller
  id and is listed first among the missing manifests.
\<close>

lemma compliance_check_missing_manifests_order:
  "missing_manifests
     (compliance_check 63900000000000500
        (two_drums_db\<lparr>transfers :=
           [(1, sample_transfer), (2, sample_transfer\<lparr>container_id := ''0f9e8d7c''\<rparr>)]\<rparr>))
   = [''0f9e8d7c'', ''a1b2c3d4'']"
  by (simp add: compliance_check_def two_drums_db_def sample_container_def
      unlisted_container_def sample_transfer_def)

section \<open>Ledger: \<^verbatim>\<open>transfer\<close> and \<^verbatim>\<open>register_container\<close>\<close>

text \<open>
  Claim C6. For every container id that references no existing container, \<^verbatim>\<open>transfer\<close>
  returns \<^verbatim>\<open>False\<close> and the database is the one it started from: no container row is
  changed and no transfer row is added.
\<close>

theorem transfer_unknown_container:
  assumes "cid \<notin> set (map id_c (containers s))"
  shows "transfer now s cid to_loc by_whom = (False, s)"
proof -
  from assms have "select_container s cid = None"
    by (rule select_container_missing)
  then show ?thesis by (simp add: transfer_def)
qed

theorem transfer_unknown_container_witness:
  "''ffffffff'' \<notin> set (map id_c (containers sample_db))
   \<and> transfer 63900000000000001 sample_db ''ffffffff'' ''Bay B'' ''op1'' = (False, sample_db)"
proof -
  have h: "''ffffffff'' \<notin> set (map id_c (containers sample_db))"
    by (simp add: sample_db_def sample_container_def)
  from transfer_unknown_container [OF h] h show ?thesis by simp
qed

text \<open>
  Claim C7. For every successful transfer: the row selected for the id exists; exactly one
  transfer row is appended, under the next sequence number, with the container's previous
  location as \<^verbatim>\<open>from_location\<close>, the requested \<^verbatim>\<open>to_location\<close> and \<^verbatim>\<open>manifested\<close> false;
  the container table keeps its length, a row with another id is unchanged, a row with the
  target id changes in its \<^verbatim>\<open>location\<close> field only; in particular no \<^verbatim>\<open>decay_date\<close> changes.
\<close>

theorem transfer_success_frame:
  assumes "transfer now s cid to_loc by_whom = (True, s')"
  shows "\<exists>c0 r. select_container s cid = Some c0 \<and> c0 \<in> set (containers s) \<and> id_c c0 = cid
           \<and> transfers s' = transfers s @ [(transfer_seq s + 1, r)]
           \<and> container_id r = cid \<and> from_location r = location c0 \<and> to_location r = to_loc
           \<and> transferred_by r = by_whom \<and> ts r = now \<and> manifested r = False
           \<and> length (containers s') = length (containers s)
           \<and> (\<forall>i < length (containers s).
                 containers s' ! i =
                   (if id_c (containers s ! i) = cid
                    then (containers s ! i)\<lparr>location := to_loc\<rparr>
                    else containers s ! i))
           \<and> map decay_date (containers s') = map decay_date (containers s)"
proof (cases "select_container s cid")
  case None
  with assms show ?thesis by (simp add: transfer_def)
next
  case (Some c0)
  then have mem: "c0 \<in> set (containers s)" "id_c c0 = cid"
    by (auto simp: select_container_def find_Some_iff)
  let ?r = "\<lparr>container_id = cid, from_location = location c0, to_location = to_loc,
              transferred_by = by_whom, ts = now, manifested = False\<rparr>"
  let ?upd = "\<lambda>c. if id_c c = cid then c\<lparr>location := to_loc\<rparr> else c"
  from assms Some have s': "s' = s\<lparr>transfers := transfers s @ [(transfer_seq s + 1, ?r)],
                transfer_seq := transfer_seq s + 1,
                containers := map ?upd (containers s)\<rparr>"
    by (simp add: transfer_def Let_def)
  have dd: "map decay_date (containers s') = map decay_date (containers s)"
    by (simp add: s' comp_def if_distrib [of decay_date])
  have tr: "transfers s' = transfers s @ [(transfer_seq s + 1, ?r)]"
    by (simp add: s')
  have len: "length (containers s') = length (containers s)"
    by (simp add: s')
  have nth: "\<forall>i < length (containers s). containers s' ! i = ?upd (containers s ! i)"
    by (simp add: s')
  from Some mem tr len nth dd show ?thesis
    by (intro exI [of _ c0] exI [of _ ?r]) simp
qed

theorem transfer_success_frame_witness:
  "transfer 63900000000000001 sample_db ''a1b2c3d4'' ''Bay B'' ''op1'' = (True, moved_db)
   \<and> (\<exists>r. transfers moved_db = transfers sample_db @ [(transfer_seq sample_db + 1, r)]
          \<and> from_location r = ''Bay A'' \<and> manifested r = False)
   \<and> 0 < length (containers sample_db)
   \<and> containers moved_db ! 0 = (containers sample_db ! 0)\<lparr>location := ''Bay B''\<rparr>
   \<and> map decay_date (containers moved_db) = map decay_date (containers sample_db)"
proof -
  have h: "transfer 63900000000000001 sample_db ''a1b2c3d4'' ''Bay B'' ''op1'' = (True, moved_db)"
    by (simp add: transfer_def select_container_def sample_db_def sample_container_def
        moved_db_def sample_transfer_def)
  from transfer_success_frame [OF h] obtain c0 r where
    sel: "select_container sample_db ''a1b2c3d4'' = Some c0" and
    tr: "transfers moved_db = transfers sample_db @ [(transfer_seq sample_db + 1, r)]" and
    fl: "from_location r = location c0" and
    mf: "manifested r = False" and
    nth: "\<forall>i < length (containers sample_db).
            containers moved_db ! i =
              (if id_c (containers sample_db ! i) = ''a1b2c3d4''
               then (containers sample_db ! i)\<lparr>location := ''Bay B''\<rparr>
               else containers sample_db ! i)" and
    dd: "map decay_date (containers moved_db) = map decay_date (containers sample_db)"
    by blast
  from sel have "c0 = sample_container"
    by (simp add: select_container_def sample_db_def sample_container_def)
  with fl have fa: "from_location r = ''Bay A''" by (simp add: sample_container_def)
  have pos: "0 < length (containers sample_db)" by (simp add: sample_db_def)
  have "id_c (containers sample_db ! 0) = ''a1b2c3d4''"
    by (simp add: sample_db_def sample_container_def)
  with nth pos
  have row: "containers moved_db ! 0 = (containers sample_db ! 0)\<lparr>location := ''Bay B''\<rparr>"
    by simp
  from h tr fa mf pos row dd show ?thesis by blast
qed

text \<open>
  Claim C8, as amended. Neither operation validates the activity. For a negative
  \<^verbatim>\<open>activity_bq\<close> the decay-date estimation answers as for any activity below the
  threshold (\<open>now\<close> for a non-empty isotope list, \<open>now\<close> plus 365 days for the empty one),
  and a registration under a fresh id stores the container with the negative activity and
  the date so computed. The failures the code can produce are those of the date arithmetic
  and of the primary key.
\<close>

theorem negative_activity_accepted:
  assumes "a < 0"
  shows "calc_decay_date now isos a =
           (if isos = [] then datetime_add now (365 * US_PER_DAY) else Inr now)
         \<and> (uuid \<notin> set (map id_c (containers s)) \<and> calc_decay_date now isos a = Inr dd \<longrightarrow>
              register_container uuid now0 now s lbl wtype isos a vol mass loc sclass =
                Inr (uuid,
                  s\<lparr>containers := containers s @
                      [\<lparr>id_c = uuid, label = lbl, waste_type = wtype, isotopes = isos,
                        activity_bq = a, volume_l = vol, mass_kg = mass,
                        location = loc, storage_class = sclass, created_at = now0,
                        decay_date = dd, status = ''active''\<rparr>]\<rparr>))"
  using assms
  by (simp add: calc_decay_date_def SAFE_THRESHOLD_def register_container_def
      timedelta_days_def py_round_def US_PER_DAY_def)

theorem negative_activity_accepted_witness:
  "(- 5 :: real) < 0
   \<and> ''ffffffff'' \<notin> set (map id_c (containers sample_db))
   \<and> calc_decay_date 63900000000000500 [''Sr-90''] (- 5) = Inr 63900000000000500
   \<and> register_container ''ffffffff'' 63900000000000400 63900000000000500 sample_db
        ''Drum 8'' ''low_level'' [''Sr-90''] (- 5) 100 120 ''Bay C'' ''low_level''
      = Inr (''ffffffff'',
          sample_db\<lparr>containers := containers sample_db @
             [\<lparr>id_c = ''ffffffff'', label = ''Drum 8'', waste_type = ''low_level'',
               isotopes = [''Sr-90''], activity_bq = - 5, volume_l = 100, mass_kg = 120,
               location = ''Bay C'', storage_class = ''low_level'',
               created_at = 63900000000000400, decay_date = 63900000000000500,
               status = ''active''\<rparr>]\<rparr>)"
proof -
  have neg: "(- 5 :: real) < 0" by simp
  have fresh: "''ffffffff'' \<notin> set (map id_c (containers sample_db))"
    by (simp add: sample_db_def sample_container_def)
  note T = negative_activity_accepted [OF neg, of 63900000000000500 "[''Sr-90'']"
      "''ffffffff''" sample_db 63900000000000500 63900000000000400
      "''Drum 8''" "''low_level''" 100 120 "''Bay C''" "''low_level''"]
  from T have d: "calc_decay_date 63900000000000500 [''Sr-90''] (- 5) = Inr 63900000000000500"
    by simp
  from T fresh d neg show ?thesis by blast
qed

text \<open>
  Claim C8 as stated asks for an InvalidInput failure. An activity of -5 Bq is accepted by
  both operations: the estimator returns \<open>now\<close> and the registration stores the row.
\<close>

theorem negative_activity_counterexample:
  "(- 5 :: real) < 0
   \<and> calc_decay_date 63900000000000000 [''Cs-137''] (- 5) = Inr 63900000000000000
   \<and> register_container ''a1b2c3d4'' 63900000000000000 63900000000000000
        \<lparr>containers = [], transfers = [], transfer_seq = 0\<rparr>
        ''Drum 7'' ''low_level'' [''Cs-137''] (- 5) 200 350 ''Bay A'' ''low_level''
      = Inr (''a1b2c3d4'',
          \<lparr>containers =
             [\<lparr>id_c = ''a1b2c3d4'', label = ''Drum 7'', waste_type = ''low_level'',
               isotopes = [''Cs-137''], activity_bq = - 5, volume_l = 200, mass_kg = 350,
               location = ''Bay A'', storage_class = ''low_level'',
               created_at = 63900000000000000, decay_date = 63900000000000000,
               status = ''active''\<rparr>],
           transfers = [], transfer_seq = 0\<rparr>)"
  by (simp add: register_container_def calc_decay_date_def SAFE_THRESHOLD_def)

section \<open>Reporting: \<^verbatim>\<open>generate_manifest\<close>, \<^verbatim>\<open>get_inventory\<close>, \<^verbatim>\<open>total_activity\<close>\<close>

lemma text_block_line: "l \<in> set ls \<Longrightarrow> sublist (l @ ''\<newline>'') (text_block ls)"
proof (induction ls)
  case Nil
  then show ?case by simp
next
  case (Cons a ls)
  show ?case
  proof (cases "l = a")
    case True
    have "sublist (a @ ''\<newline>'') ([] @ (a @ ''\<newline>'') @ text_block ls)"
      by (rule sublist_appendI)
    with True show ?thesis by (simp add: text_block_def)
  next
    case False
    with Cons have "sublist (l @ ''\<newline>'') (text_block ls)" by simp
    then obtain ps ss where "text_block ls = ps @ (l @ ''\<newline>'') @ ss"
      by (auto simp: sublist_def)
    then have "(a @ ''\<newline>'') @ text_block ls
                 = ((a @ ''\<newline>'') @ ps) @ (l @ ''\<newline>'') @ ss"
      by simp
    then have "sublist (l @ ''\<newline>'') ((a @ ''\<newline>'') @ text_block ls)"
      unfolding sublist_def by blast
    then show ?thesis by (simp add: text_block_def)
  qed
qed

lemma text_block_nonempty: "ls \<noteq> [] \<Longrightarrow> text_block ls \<noteq> []"
  by (cases ls) (simp_all add: text_block_def)

lemma find_distinct_key:
  "distinct (map f xs) \<Longrightarrow> x \<in> set xs \<Longrightarrow> find (\<lambda>y. f y = f x) xs = Some x"
  by (induction xs) (auto simp: image_iff)

lemma select_transfer_missing:
  "tid \<notin> fst ` set (transfers s) \<Longrightarrow> select_transfer s tid = None"
  by (force simp: select_transfer_def find_None_iff)

lemma select_transfer_row:
  assumes "distinct (map fst (transfers s))" and "(tid, tr) \<in> set (transfers s)"
  shows "select_transfer s tid = Some tr"
  using find_distinct_key [OF assms] by (simp add: select_transfer_def)

lemma select_container_row:
  assumes "distinct (map id_c (containers s))" and "c \<in> set (containers s)"
  shows "select_container s (id_c c) = Some c"
  using find_distinct_key [OF assms] by (simp add: select_container_def)

text \<open>
  Claim C9. For every transfer id, \<^verbatim>\<open>generate_manifest\<close> returns the not-found signal (the
  empty string) when no row of the transfer table has that id, and when the row with that
  id names a container id that no row of the container table has. When the transfer row
  and the container row it names are both in their tables, the result is not the signal,
  and it holds, each on a line of its own, the transfer's container id, locations, actor
  and time together with the container's label, waste type, isotopes, activity, volume and
  mass. Ids are unique in both tables, as their primary keys make them.
\<close>

theorem generate_manifest_not_found:
  "(tid \<notin> fst ` set (transfers s) \<longrightarrow> generate_manifest R now s tid = '''')
   \<and> (\<forall>tr. distinct (map fst (transfers s)) \<and> (tid, tr) \<in> set (transfers s)
            \<and> container_id tr \<notin> id_c ` set (containers s)
          \<longrightarrow> generate_manifest R now s tid = '''')
   \<and> (\<forall>tr c. distinct (map fst (transfers s)) \<and> (tid, tr) \<in> set (transfers s)
            \<and> distinct (map id_c (containers s)) \<and> c \<in> set (containers s)
            \<and> id_c c = container_id tr
          \<longrightarrow> generate_manifest R now s tid \<noteq> ''''
              \<and> (\<forall>l \<in> set (manifest_lines R tid tr c).
                    sublist (l @ ''\<newline>'') (generate_manifest R now s tid)))"
proof (intro conjI allI impI ballI)
  assume "tid \<notin> fst ` set (transfers s)"
  then have "select_transfer s tid = None" by (rule select_transfer_missing)
  then show "generate_manifest R now s tid = ''''" by (simp add: generate_manifest_def)
next
  fix tr
  assume h: "distinct (map fst (transfers s)) \<and> (tid, tr) \<in> set (transfers s)
               \<and> container_id tr \<notin> id_c ` set (containers s)"
  then have t: "select_transfer s tid = Some tr" by (simp add: select_transfer_row)
  from h have "select_container s (container_id tr) = None"
    by (simp add: select_container_missing)
  with t show "generate_manifest R now s tid = ''''" by (simp add: generate_manifest_def)
next
  fix tr c
  assume h: "distinct (map fst (transfers s)) \<and> (tid, tr) \<in> set (transfers s)
               \<and> distinct (map id_c (containers s)) \<and> c \<in> set (containers s)
               \<and> id_c c = container_id tr"
  then have t: "select_transfer s tid = Some tr" by (simp add: select_transfer_row)
  from h have d: "distinct (map id_c (containers s))" and m: "c \<in> set (containers s)"
    and e: "id_c c = container_id tr"
    by blast+
  note k0 = select_container_row [OF d m]
  from k0 have "select_container s (container_id tr) = Some c" unfolding e .
  with t show "generate_manifest R now s tid \<noteq> ''''"
    by (simp add: generate_manifest_def text_block_nonempty)
next
  fix tr c l
  assume h: "distinct (map fst (transfers s)) \<and> (tid, tr) \<in> set (transfers s)
               \<and> distinct (map id_c (containers s)) \<and> c \<in> set (containers s)
               \<and> id_c c = container_id tr"
    and l: "l \<in> set (manifest_lines R tid tr c)"
  from h have t: "select_transfer s tid = Some tr" by (simp add: select_transfer_row)
  from h have d: "distinct (map id_c (containers s))" and m: "c \<in> set (containers s)"
    and e: "id_c c = container_id tr"
    by blast+
  note k0 = select_container_row [OF d m]
  from k0 have k: "select_container s (container_id tr) = Some c" unfolding e .
  from t k obtain ls where g: "generate_manifest R now s tid = text_block ls"
    and sub: "set (manifest_lines R tid tr c) \<subseteq> set ls"
    by (simp add: generate_manifest_def manifest_lines_def)
  from l sub have "l \<in> set ls" by blast
  then show "sublist (l @ ''\<newline>'') (generate_manifest R now s tid)"
    unfolding g by (rule text_block_line)
qed

text \<open>
  Three lookups: transfer 1 in a database without transfers; transfer 1 whose container is
  gone; transfer 1 of the moved drum, and there also transfer 999, which no row has.
\<close>

theorem generate_manifest_not_found_witness:
  "1 \<notin> fst ` set (transfers sample_db)
   \<and> generate_manifest plain_rendering 63900000000000500 sample_db 1 = ''''
   \<and> 999 \<notin> fst ` set (transfers moved_db)
   \<and> generate_manifest plain_rendering 63900000000000500 moved_db 999 = ''''
   \<and> distinct (map fst (transfers orphan_db)) \<and> (1, sample_transfer) \<in> set (transfers orphan_db)
   \<and> container_id sample_transfer \<notin> id_c ` set (containers orphan_db)
   \<and> generate_manifest plain_rendering 63900000000000500 orphan_db 1 = ''''
   \<and> distinct (map fst (transfers moved_db)) \<and> (1, sample_transfer) \<in> set (transfers moved_db)
   \<and> distinct (map id_c (containers moved_db))
   \<and> sample_container\<lparr>location := ''Bay B''\<rparr> \<in> set (containers moved_db)
   \<and> id_c (sample_container\<lparr>location := ''Bay B''\<rparr>) = container_id sample_transfer
   \<and> generate_manifest plain_rendering 63900000000000500 moved_db 1 \<noteq> ''''
   \<and> sublist ''  Label: Drum 7\<newline>''
        (generate_manifest plain_rendering 63900000000000500 moved_db 1)
   \<and> sublist ''  From: Bay A\<newline>''
        (generate_manifest plain_rendering 63900000000000500 moved_db 1)"
proof -
  let ?now = "63900000000000500 :: int"
  let ?c = "sample_container\<lparr>location := ''Bay B''\<rparr>"
  have a: "1 \<notin> fst ` set (transfers sample_db)"
    by (simp add: sample_db_def)
  have a9: "999 \<notin> fst ` set (transfers moved_db)"
    by (simp add: moved_db_def)
  have b1: "distinct (map fst (transfers orphan_db))"
    and b2: "(1, sample_transfer) \<in> set (transfers orphan_db)"
    and b3: "container_id sample_transfer \<notin> id_c ` set (containers orphan_db)"
    by (simp_all add: orphan_db_def)
  have c1: "distinct (map fst (transfers moved_db))"
    and c2: "(1, sample_transfer) \<in> set (transfers moved_db)"
    and c3: "distinct (map id_c (containers moved_db))"
    and c4: "?c \<in> set (containers moved_db)"
    by (simp_all add: moved_db_def)
  have c5: "id_c ?c = container_id sample_transfer"
    by (simp add: sample_container_def sample_transfer_def)
  from generate_manifest_not_found [of 1 sample_db plain_rendering ?now] a
  have r1: "generate_manifest plain_rendering ?now sample_db 1 = ''''" by blast
  from generate_manifest_not_found [of 999 moved_db plain_rendering ?now] a9
  have r9: "generate_manifest plain_rendering ?now moved_db 999 = ''''" by blast
  from generate_manifest_not_found [of 1 orphan_db plain_rendering ?now] b1 b2 b3
  have r2: "generate_manifest plain_rendering ?now orphan_db 1 = ''''" by blast
  from generate_manifest_not_found [of 1 moved_db plain_rendering ?now] c1 c2 c3 c4 c5
  have r3: "generate_manifest plain_rendering ?now moved_db 1 \<noteq> ''''"
    and r4: "\<forall>l \<in> set (manifest_lines plain_rendering 1 sample_transfer ?c).
               sublist (l @ ''\<newline>'') (generate_manifest plain_rendering ?now moved_db 1)"
    by blast+
  have "''  Label: Drum 7'' \<in> set (manifest_lines plain_rendering 1 sample_transfer ?c)"
    by (simp add: manifest_lines_def sample_container_def)
  with r4 have r5: "sublist (''  Label: Drum 7'' @ ''\<newline>'')
                      (generate_manifest plain_rendering ?now moved_db 1)"
    by blast
  have "''  From: Bay A'' \<in> set (manifest_lines plain_rendering 1 sample_transfer ?c)"
    by (simp add: manifest_lines_def sample_transfer_def)
  with r4 have r6: "sublist (''  From: Bay A'' @ ''\<newline>'')
                      (generate_manifest plain_rendering ?now moved_db 1)"
    by blast
  from r5 have r5': "sublist ''  Label: Drum 7\<newline>''
                      (generate_manifest plain_rendering ?now moved_db 1)"
    by simp
  from r6 have r6': "sublist ''  From: Bay A\<newline>''
                      (generate_manifest plain_rendering ?now moved_db 1)"
    by simp
  from a r1 a9 r9 b1 b2 b3 r2 c1 c2 c3 c4 c5 r3 r5' r6' show ?thesis by blast
qed

text \<open>
  Claim C10. For every database, \<^verbatim>\<open>get_inventory\<close> called with the empty string as location
  (or as waste type) returns what it returns without that filter, and \<^verbatim>\<open>total_activity\<close>
  called with the empty string returns the global total: with both filters empty the
  inventory is every active container, also those whose location is not the empty string,
  and the total is the sum over every active container.
\<close>

theorem empty_string_filter_is_no_filter:
  "get_inventory s (Some '''') wtype = get_inventory s None wtype
   \<and> get_inventory s loc (Some '''') = get_inventory s loc None
   \<and> get_inventory s (Some '''') (Some '''')
       = filter (\<lambda>c. status c = ''active'') (containers s)
   \<and> total_activity s (Some '''') = total_activity s None
   \<and> total_activity s (Some '''')
       = sum_list (map activity_bq (filter (\<lambda>c. status c = ''active'') (containers s)))"
  by (simp add: get_inventory_def total_activity_def sql_sum_def Let_def)

theorem empty_string_filter_is_no_filter_witness:
  "get_inventory sample_db (Some '''') (Some '''') = [sample_container]
   \<and> get_inventory sample_db None None = [sample_container]
   \<and> total_activity sample_db (Some '''') = 5000
   \<and> total_activity sample_db None = 5000"
proof -
  note T = empty_string_filter_is_no_filter [of sample_db "Some ''''" None]
  have act: "filter (\<lambda>c. status c = ''active'') (containers sample_db) = [sample_container]"
    by (simp add: sample_db_def sample_container_def)
  from T have e1: "get_inventory sample_db (Some '''') (Some '''')
                     = get_inventory sample_db None (Some '''')"
    and e2: "get_inventory sample_db None (Some '''') = get_inventory sample_db None None"
    and e3: "get_inventory sample_db (Some '''') (Some '''')
               = filter (\<lambda>c. status c = ''active'') (containers sample_db)"
    and e4: "total_activity sample_db (Some '''') = total_activity sample_db None"
    and e5: "total_activity sample_db (Some '''')
               = sum_list (map activity_bq
                   (filter (\<lambda>c. status c = ''active'') (containers sample_db)))"
    by blast+
  have a: "get_inventory sample_db (Some '''') (Some '''') = [sample_container]"
    unfolding e3 by (rule act)
  have b: "get_inventory sample_db None None = [sample_container]"
    unfolding e2 [symmetric] e1 [symmetric] by (rule a)
  have c: "total_activity sample_db (Some '''') = 5000"
    unfolding e5 act by (simp add: sample_container_def)
  have d: "total_activity sample_db None = 5000"
    unfolding e4 [symmetric] by (rule c)
  from a b c d show ?thesis by blast
qed

text \<open>On the sample database the drum in Bay A is listed under the empty-string location.\<close>

lemma empty_string_filter_sample:
  "get_inventory sample_db (Some '''') None = [sample_container]
   \<and> location sample_container = ''Bay A''
   \<and> get_inventory sample_db (Some ''Bay Z'') None = []
   \<and> total_activity sample_db (Some '''') = 5000
   \<and> total_activity sample_db (Some ''Bay Z'') = 0"
  by (simp add: get_inventory_def total_activity_def sql_sum_def sample_db_def
      sample_container_def)

end
